theory Spec2Isabelle
  imports Main
begin

section \<open>JavaScript values used by the server\<close>

text \<open>
  Text is a byte string (UTF-8): the characters outside ASCII that the server writes into
  its messages or removes from a text are spelled out as their bytes.
\<close>

definition newline :: string where
  "newline = [CHR 0x0A]"

definition check_mark :: string where
  "check_mark = [CHR 0xE2, CHR 0x9C, CHR 0x85]"

definition cross_mark :: string where
  "cross_mark = [CHR 0xE2, CHR 0x9D, CHR 0x8C]"

definition warning_sign :: string where
  "warning_sign = [CHR 0xE2, CHR 0x9A, CHR 0xA0]"

definition variation_selector :: string where
  "variation_selector = [CHR 0xEF, CHR 0xB8, CHR 0x8F]"

definition light_bulb :: string where
  "light_bulb = [CHR 0xF0, CHR 0x9F, CHR 0x92, CHR 0xA1]"

text \<open>
  A call either throws an \<open>Error\<close> (kept by its \<open>message\<close>) or returns a value. For an
  \<open>async\<close> function, \<open>Throws\<close> is the rejected promise.
\<close>

datatype 'a outcome = Throws string | Returns 'a

text \<open>
  A result object as the services build it and the routes read it. A property that the
  object does not have reads as \<open>undefined\<close>: it is \<open>None\<close> here. \<open>error: null\<close> is
  \<open>None\<close> as well; the routes only test and forward it.
\<close>

record 'e result_obj =
  code :: "string option"
  outputCode :: "string option"
  success :: bool
  error :: "'e option"
  analysis :: "string list"

section \<open>GeminiService (src/unnamed/part\_000)\<close>

subsection \<open>The generative-model SDK\<close>

text \<open>
  The package \<open>@google/generative-ai\<close> is not code of the repository. Its objects are
  modelled by what the service awaits from them: \<open>generateContent(prompt)\<close> resolves to a
  result or rejects, \<open>result.response\<close> resolves or rejects, and \<open>response.text()\<close>
  returns the text or throws. A rejection or throw is \<open>Inl message\<close>.
\<close>

datatype EnhancedResponse = EnhancedResponse (text_of: "string + string")

datatype GenerateContentResult = GenerateContentResult (response: "string + EnhancedResponse")

type_synonym GenerativeModel = "string \<Rightarrow> string + GenerateContentResult"

datatype GoogleGenerativeAI = GoogleGenerativeAI (apiKey: string)

text \<open>
  The three awaits at the head of every \<open>try\<close> block:
  \<^verbatim>\<open>const result = await this.model.generateContent(prompt);
  const response = await result.response;
  const ... = response.text()\<close>
\<close>

definition generateText :: "GenerativeModel \<Rightarrow> string \<Rightarrow> string + string" where
  "generateText m prompt =
     (case m prompt of
        Inl message \<Rightarrow> Inl message
      | Inr result \<Rightarrow>
          (case response result of
             Inl message \<Rightarrow> Inl message
           | Inr resp \<Rightarrow> text_of resp))"

subsection \<open>String helpers of the run time\<close>

text \<open>
  \<open>String.prototype.trim\<close> removes the white space and the line terminators of ECMAScript
  at both ends: U+0009 to U+000D, U+0020, U+00A0, U+1680, U+2000 to U+200A, U+2028, U+2029,
  U+202F, U+205F, U+3000 and U+FEFF, each written here as its UTF-8 bytes.
\<close>

definition whiteSpace :: "string list" where
  "whiteSpace =
     [[CHR 0x09], [CHR 0x0A], [CHR 0x0B], [CHR 0x0C], [CHR 0x0D], [CHR 0x20],
      [CHR 0xC2, CHR 0xA0],
      [CHR 0xE1, CHR 0x9A, CHR 0x80],
      [CHR 0xE2, CHR 0x80, CHR 0x80], [CHR 0xE2, CHR 0x80, CHR 0x81],
      [CHR 0xE2, CHR 0x80, CHR 0x82], [CHR 0xE2, CHR 0x80, CHR 0x83],
      [CHR 0xE2, CHR 0x80, CHR 0x84], [CHR 0xE2, CHR 0x80, CHR 0x85],
      [CHR 0xE2, CHR 0x80, CHR 0x86], [CHR 0xE2, CHR 0x80, CHR 0x87],
      [CHR 0xE2, CHR 0x80, CHR 0x88], [CHR 0xE2, CHR 0x80, CHR 0x89],
      [CHR 0xE2, CHR 0x80, CHR 0x8A],
      [CHR 0xE2, CHR 0x80, CHR 0xA8], [CHR 0xE2, CHR 0x80, CHR 0xA9],
      [CHR 0xE2, CHR 0x80, CHR 0xAF],
      [CHR 0xE2, CHR 0x81, CHR 0x9F],
      [CHR 0xE3, CHR 0x80, CHR 0x80],
      [CHR 0xEF, CHR 0xBB, CHR 0xBF]]"

text \<open>Removes, from the left, every leading occurrence of one of the given byte sequences.\<close>

function stripLeading :: "string list \<Rightarrow> string \<Rightarrow> string" where
  "stripLeading ws s =
     (case find (\<lambda>w. w \<noteq> [] \<and> take (length w) s = w) ws of
        None \<Rightarrow> s
      | Some w \<Rightarrow> stripLeading ws (drop (length w) s))"
  by pat_completeness auto
termination
proof (relation "measure (\<lambda>(ws, s). length s)")
  show "wf (measure (\<lambda>(ws, s). length s))" by simp
next
  fix ws :: "string list" and s w :: string
  assume "find (\<lambda>w. w \<noteq> [] \<and> take (length w) s = w) ws = Some w"
  then have w: "w \<noteq> []" and pre: "take (length w) s = w"
    by (auto simp: find_Some_iff)
  from w pre have "s \<noteq> []" by auto
  with w have "length (drop (length w) s) < length s" by simp
  then show "((ws, drop (length w) s), (ws, s)) \<in> measure (\<lambda>(ws, s). length s)" by simp
qed

text \<open>
  At the right end the same sequences are removed, read backwards: in UTF-8 no white-space
  sequence is the tail of the encoding of another character.
\<close>

definition trim :: "string \<Rightarrow> string" where
  "trim s = rev (stripLeading (map rev whiteSpace) (rev (stripLeading whiteSpace s)))"

text \<open>The class \<open>[\w]\<close> of a regular expression without the unicode flag.\<close>

definition isWordChar :: "char \<Rightarrow> bool" where
  "isWordChar c =
     (let n = (of_char c :: nat)
      in (97 \<le> n \<and> n \<le> 122) \<or> (65 \<le> n \<and> n \<le> 90) \<or> (48 \<le> n \<and> n \<le> 57) \<or> n = 95)"

text \<open>
  \<^verbatim>\<open>.replace(/```[\w]*\n?/g, '')\<close>: every fence, with the word characters and the one
  line feed that follow it, is removed, scanning from the left.
\<close>

function removeTaggedFences :: "string \<Rightarrow> string" where
  "removeTaggedFences s =
     (case s of
        [] \<Rightarrow> []
      | c # cs \<Rightarrow>
          if take 3 s = ''```''
          then (let r = dropWhile isWordChar (drop 3 s)
                in removeTaggedFences (case r of [] \<Rightarrow> [] | d # ds \<Rightarrow> if d = CHR 0x0A then ds else r))
          else c # removeTaggedFences cs)"
  by pat_completeness auto
termination
proof (relation "measure length")
  show "wf (measure length)" by simp
next
  fix s :: string and c cs r
  assume s: "s = c # cs" and r: "r = dropWhile isWordChar (drop 3 s)"
  have "length r \<le> length (drop 3 s)"
    unfolding r by (rule length_dropWhile_le)
  then have "length r < length s"
    using s by simp
  moreover have "length (case r of [] \<Rightarrow> [] | d # ds \<Rightarrow> if d = CHR 0x0A then ds else r) \<le> length r"
    by (cases r) simp_all
  ultimately show "(case r of [] \<Rightarrow> [] | d # ds \<Rightarrow> if d = CHR 0x0A then ds else r, s) \<in> measure length"
    by simp
next
  fix s :: string and c cs
  assume "s = c # cs"
  then show "(cs, s) \<in> measure length" by simp
qed

text \<open>\<^verbatim>\<open>.replace(/```/g, '')\<close>: every remaining fence is removed.\<close>

fun removeFences :: "string \<Rightarrow> string" where
  "removeFences (a # b # c # rest) =
     (if [a, b, c] = ''```'' then removeFences rest else a # removeFences (b # c # rest))"
| "removeFences s = s"

definition cleanCode :: "string \<Rightarrow> string" where
  "cleanCode generated = trim (removeFences (removeTaggedFences generated))"

subsection \<open>The service\<close>

record GeminiService =
  genAI :: "GoogleGenerativeAI option"
  model :: "GenerativeModel option"



definition isConfigured :: "GeminiService \<Rightarrow> bool" where
  "isConfigured this = (genAI this \<noteq> None \<and> model this \<noteq> None)"

definition notConfigured :: string where
  "notConfigured = ''Gemini API key not configured''"

subsection \<open>Prompts\<close>

definition convertPrompt :: "string \<Rightarrow> string \<Rightarrow> string \<Rightarrow> string" where
  "convertPrompt sourceCode sourceLang targetLang = concat [
     ''Convert the following '', sourceLang, '' code to '', targetLang, ''. '',
     newline,
     ''    Provide only the converted code without explanations or markdown formatting.'',
     newline, ''    Maintain the same functionality and logic.'', newline, ''    '',
     newline, ''    Source code:'', newline, ''    ```'', sourceLang, newline,
     ''    '', sourceCode, newline, ''    ```'', newline, ''    '', newline,
     ''    Converted '', targetLang, '' code:'']"

definition fixPrompt :: "string \<Rightarrow> string \<Rightarrow> string" where
  "fixPrompt sourceCode language = concat [
     ''Analyze and fix the following '', language, '' code. '', newline,
     ''    Identify syntax errors, logical issues, and best practices violations.'',
     newline,
     ''    Provide the corrected code without explanations or markdown formatting.'',
     newline, ''    '', newline, ''    Code to fix:'', newline, ''    ```'', language,
     newline, ''    '', sourceCode, newline, ''    ```'', newline, ''    '', newline,
     ''    Fixed code:'']"




subsection \<open>The five AI methods\<close>


definition convertCodeWithAI ::
  "GeminiService \<Rightarrow> string \<Rightarrow> string \<Rightarrow> string \<Rightarrow> string result_obj outcome" where
  "convertCodeWithAI this sourceCode sourceLang targetLang =
     (case model this of
        None \<Rightarrow> Throws notConfigured
      | Some m \<Rightarrow>
          if genAI this = None then Throws notConfigured
          else
            (case generateText m (convertPrompt sourceCode sourceLang targetLang) of
               Inr generated \<Rightarrow>
                 Returns \<lparr>code = Some (cleanCode (trim generated)), outputCode = None,
                   success = True, error = None,
                   analysis =
                     [check_mark @ '' AI-powered conversion from '' @ sourceLang @ '' to '' @ targetLang,
                      check_mark @ '' Code analyzed and transformed using Gemini 1.5 Flash'',
                      check_mark @ '' Functionality preserved during conversion'']\<rparr>
             | Inl message \<Rightarrow>
                 Returns \<lparr>code = Some [], outputCode = None,
                   success = False, error = Some message,
                   analysis = [cross_mark @ '' AI conversion failed: '' @ message]\<rparr>))"

definition fixCodeWithAI ::
  "GeminiService \<Rightarrow> string \<Rightarrow> string \<Rightarrow> string result_obj outcome" where
  "fixCodeWithAI this sourceCode language =
     (case model this of
        None \<Rightarrow> Throws notConfigured
      | Some m \<Rightarrow>
          if genAI this = None then Throws notConfigured
          else
            (case generateText m (fixPrompt sourceCode language) of
               Inr generated \<Rightarrow>
                 Returns \<lparr>code = Some (cleanCode (trim generated)), outputCode = None,
                   success = True, error = None,
                   analysis =
                     [check_mark @ '' AI-powered code analysis and fixing'',
                      check_mark @ '' Syntax errors identified and corrected'',
                      check_mark @ '' Code quality improved using Gemini 1.5 Flash'',
                      check_mark @ '' Best practices applied'']\<rparr>
             | Inl message \<Rightarrow>
                 Returns \<lparr>code = Some [], outputCode = None,
                   success = False, error = Some message,
                   analysis = [cross_mark @ '' AI code fixing failed: '' @ message]\<rparr>))"




section \<open>The routes (src/server/routes/convert.js)\<close>

subsection \<open>Collaborators whose code is not in the sources\<close>

text \<open>
  \<open>CodeTransformer\<close> and \<open>CodeAnalyzer\<close> (\<open>../lib/codeTransformer.js\<close>,
  \<open>../lib/codeAnalyzer.js\<close>) are parameters of the routes: any functions, which may throw.
  The routes interpolate the findings, the fixes and the metrics into text, so findings and
  fixes are kept as that text and the counts as numbers. The code argument is \<open>None\<close>
  where a route passes a property that its result object does not have.
\<close>

record syntax_analysis =
  errors :: "string list"
  warnings :: "string list"
  suggestions :: "string list"

record fix_result =
  fixResult_code :: "string option"
  fixResult_fixes :: "string list"

record quality_metrics =
  readability :: string
  linesOfCode :: nat
  functionsCount :: nat
  classes :: nat
  complexity :: nat

record engine =
  codeTransformer_convertCode :: "string \<Rightarrow> string \<Rightarrow> string \<Rightarrow> string result_obj outcome"
  codeAnalyzer_analyzeSyntax :: "string option \<Rightarrow> string \<Rightarrow> syntax_analysis outcome"
  codeAnalyzer_fixSyntaxErrors :: "string option \<Rightarrow> string \<Rightarrow> fix_result outcome"
  codeAnalyzer_generateQualityMetrics :: "string option \<Rightarrow> string \<Rightarrow> quality_metrics outcome"

text \<open>
  Supabase (\<open>../supabase.js\<close> and the client library): whether it is configured, the value
  of \<open>SUPABASE_TABLE\<close> in the environment, and what awaiting
  \<^verbatim>\<open>supabase.from(TABLE).insert(row).select()\<close> gives: a rejection, or \<open>{data, error}\<close>.
\<close>

record history_entry =
  entry_sourceLang :: string
  entry_targetLang :: "string option"
  entry_inputCode :: string
  entry_outputCode :: "string option"
  entry_analysisSummary :: "string list"
  entry_useAI :: bool

datatype history_row = HistoryRow (row_id: "string option")

datatype insert_outcome =
  Rejected string
| Resolved (data: "history_row list option") (insert_error: "string option")

record supabase_env =
  isSupabaseConfigured :: bool
  SUPABASE_TABLE :: "string option"
  insert_row :: "string \<Rightarrow> history_entry \<Rightarrow> insert_outcome"

subsection \<open>saveHistory\<close>

text \<open>\<^verbatim>\<open>const TABLE = process.env.SUPABASE_TABLE || 'history'\<close>\<close>

definition TABLE :: "supabase_env \<Rightarrow> string" where
  "TABLE sb = (case SUPABASE_TABLE sb of None \<Rightarrow> ''history'' | Some t \<Rightarrow> if t = [] then ''history'' else t)"

datatype saved = Null | Undefined | Saved history_row

text \<open>
  The entry is the object literal passed to \<open>insert\<close>, here \<open>insert_row\<close> (with
  \<^verbatim>\<open>useAI: useAI || false\<close>).
  \<^verbatim>\<open>if (error) throw error\<close> and a rejected insert both end in the \<open>catch\<close>, which
  returns \<open>null\<close>; \<^verbatim>\<open>data?.[0]\<close> is \<open>undefined\<close> when there is no first row.
\<close>

definition saveHistory :: "supabase_env \<Rightarrow> history_entry \<Rightarrow> saved" where
  "saveHistory sb entry =
     (if \<not> isSupabaseConfigured sb then Null
      else
        (case insert_row sb (TABLE sb) entry of
           Rejected message \<Rightarrow> Null
         | Resolved rows err \<Rightarrow>
             (case err of
                Some message \<Rightarrow> Null
              | None \<Rightarrow>
                  (case rows of
                     None \<Rightarrow> Undefined
                   | Some [] \<Rightarrow> Undefined
                   | Some (r # _) \<Rightarrow> Saved r))))"

text \<open>\<^verbatim>\<open>saved?.id\<close>\<close>

definition saved_id :: "saved \<Rightarrow> string option" where
  "saved_id s = (case s of Saved r \<Rightarrow> row_id r | _ \<Rightarrow> None)"

subsection \<open>Responses\<close>

record ok_body =
  body_outputCode :: "string option"
  body_analysis :: "string list"
  body_id :: "string option"
  body_useAI :: bool
  body_qualityMetrics :: quality_metrics

text \<open>
  \<open>BadRequest\<close> is status 400 and \<open>ServerError\<close> status 500, each with the \<open>error\<close>
  property of its body; \<open>Ok\<close> is the body sent by \<^verbatim>\<open>res.json\<close> with status 200.
\<close>

datatype http_response = BadRequest string | ServerError "string option" | Ok ok_body

text \<open>A number in a template literal: its decimal digits.\<close>

function showNat :: "nat \<Rightarrow> string" where
  "showNat n =
     (if n < 10 then [char_of (48 + n)] else showNat (n div 10) @ [char_of (48 + n mod 10)])"
  by pat_completeness auto
termination
  by (relation "measure (\<lambda>n. n)") auto

text \<open>A request property is falsy when it is missing or the empty string.\<close>

definition falsy :: "string option \<Rightarrow> bool" where
  "falsy v = (case v of None \<Rightarrow> True | Some s \<Rightarrow> s = [])"

subsection \<open>POST /convert\<close>

definition convert_route ::
  "engine \<Rightarrow> GeminiService \<Rightarrow> supabase_env \<Rightarrow>
   string option \<Rightarrow> string option \<Rightarrow> string option \<Rightarrow> bool \<Rightarrow> http_response" where
  "convert_route eng geminiService sb sourceLang targetLang inputCode useAI =
     (case (sourceLang, targetLang, inputCode) of
        (Some sLang, Some tLang, Some ic) \<Rightarrow>
          if falsy sourceLang \<or> falsy targetLang \<or> falsy inputCode
          then BadRequest ''sourceLang, targetLang, inputCode required''
          else
            (case (if useAI \<and> isConfigured geminiService
                   then convertCodeWithAI geminiService ic sLang tLang
                   else codeTransformer_convertCode eng ic sLang tLang) of
               Throws message \<Rightarrow> ServerError (Some message)
             | Returns result \<Rightarrow>
                 if \<not> success result then ServerError (error result)
                 else
                   (case codeAnalyzer_analyzeSyntax eng (outputCode result) tLang of
                      Throws message \<Rightarrow> ServerError (Some message)
                    | Returns syntaxAnalysis \<Rightarrow>
                        (case codeAnalyzer_generateQualityMetrics eng (outputCode result) tLang of
                           Throws message \<Rightarrow> ServerError (Some message)
                         | Returns qualityMetrics \<Rightarrow>
                             (let combinedAnalysis =
                                    analysis result @
                                    [check_mark @ '' Code quality: '' @ readability qualityMetrics,
                                     check_mark @ '' Lines of code: '' @ showNat (linesOfCode qualityMetrics),
                                     check_mark @ '' Functions: '' @ showNat (functionsCount qualityMetrics),
                                     check_mark @ '' Classes: '' @ showNat (classes qualityMetrics)] @
                                    map (\<lambda>w. warning_sign @ variation_selector @ '' '' @ w)
                                      (warnings syntaxAnalysis) @
                                    map (\<lambda>s. light_bulb @ '' '' @ s) (suggestions syntaxAnalysis);
                                  saved = saveHistory sb
                                    \<lparr>entry_sourceLang = sLang, entry_targetLang = Some tLang,
                                     entry_inputCode = ic, entry_outputCode = outputCode result,
                                     entry_analysisSummary = combinedAnalysis, entry_useAI = useAI\<rparr>
                              in Ok \<lparr>body_outputCode = outputCode result,
                                     body_analysis = combinedAnalysis,
                                     body_id = saved_id saved,
                                     body_useAI = useAI,
                                     body_qualityMetrics = qualityMetrics\<rparr>))))
      | _ \<Rightarrow> BadRequest ''sourceLang, targetLang, inputCode required'')"

subsection \<open>POST /fix\<close>

text \<open>
  The rule-based branch builds its own result object from \<open>analyzeSyntax\<close> and
  \<open>fixSyntaxErrors\<close>; a throw of either is caught by the route's \<open>catch\<close>.
\<close>

definition ruleBasedFix :: "engine \<Rightarrow> string \<Rightarrow> string \<Rightarrow> string result_obj outcome" where
  "ruleBasedFix eng ic language =
     (case codeAnalyzer_analyzeSyntax eng (Some ic) language of
        Throws message \<Rightarrow> Throws message
      | Returns syntaxAnalysis \<Rightarrow>
          (case codeAnalyzer_fixSyntaxErrors eng (Some ic) language of
             Throws message \<Rightarrow> Throws message
           | Returns fixResult \<Rightarrow>
               Returns \<lparr>code = fixResult_code fixResult, outputCode = None,
                 success = True, error = None,
                 analysis =
                   [check_mark @ '' Syntax analysis completed'',
                    check_mark @ '' Found '' @ showNat (length (errors syntaxAnalysis)) @ '' errors'',
                    check_mark @ '' Found '' @ showNat (length (warnings syntaxAnalysis)) @ '' warnings''] @
                   map (\<lambda>f. check_mark @ '' '' @ f) (fixResult_fixes fixResult) @
                   map (\<lambda>w. warning_sign @ variation_selector @ '' '' @ w) (warnings syntaxAnalysis) @
                   map (\<lambda>s. light_bulb @ '' '' @ s) (suggestions syntaxAnalysis)\<rparr>))"

definition fix_route ::
  "engine \<Rightarrow> GeminiService \<Rightarrow> supabase_env \<Rightarrow>
   string option \<Rightarrow> string option \<Rightarrow> bool \<Rightarrow> http_response" where
  "fix_route eng geminiService sb language inputCode useAI =
     (case (language, inputCode) of
        (Some lang, Some ic) \<Rightarrow>
          if falsy language \<or> falsy inputCode
          then BadRequest ''language, inputCode required''
          else
            (case (if useAI \<and> isConfigured geminiService
                   then fixCodeWithAI geminiService ic lang
                   else ruleBasedFix eng ic lang) of
               Throws message \<Rightarrow> ServerError (Some message)
             | Returns result \<Rightarrow>
                 if \<not> success result then ServerError (error result)
                 else
                   (case codeAnalyzer_generateQualityMetrics eng (code result) lang of
                      Throws message \<Rightarrow> ServerError (Some message)
                    | Returns qualityMetrics \<Rightarrow>
                        (let combinedAnalysis =
                               analysis result @
                               [check_mark @ '' Code quality: '' @ readability qualityMetrics,
                                check_mark @ '' Lines of code: '' @ showNat (linesOfCode qualityMetrics),
                                check_mark @ '' Functions: '' @ showNat (functionsCount qualityMetrics),
                                check_mark @ '' Classes: '' @ showNat (classes qualityMetrics)];
                             saved = saveHistory sb
                               \<lparr>entry_sourceLang = lang, entry_targetLang = None,
                                entry_inputCode = ic, entry_outputCode = code result,
                                entry_analysisSummary = combinedAnalysis, entry_useAI = useAI\<rparr>
                         in Ok \<lparr>body_outputCode = code result,
                                body_analysis = combinedAnalysis,
                                body_id = saved_id saved,
                                body_useAI = useAI,
                                body_qualityMetrics = qualityMetrics\<rparr>)))
      | _ \<Rightarrow> BadRequest ''language, inputCode required'')"

subsection \<open>Persistence seen from the response\<close>

text \<open>
  An insert fails when awaiting it rejects or when it resolves with an \<open>error\<close>.
  \<open>withoutId\<close> forgets the \<open>id\<close> of a 200 response (the property is \<open>undefined\<close>).
\<close>

definition insertFails :: "insert_outcome \<Rightarrow> bool" where
  "insertFails r = (case r of Rejected message \<Rightarrow> True | Resolved rows err \<Rightarrow> err \<noteq> None)"

definition withoutId :: "http_response \<Rightarrow> http_response" where
  "withoutId r = (case r of Ok b \<Rightarrow> Ok (b\<lparr>body_id := None\<rparr>) | _ \<Rightarrow> r)"

text \<open>
  Sample collaborators, for evaluating the routes: an engine whose fixer returns its input,
  Supabase not configured, and Supabase storing a row with id 7.
\<close>

definition sampleEngine :: engine where
  "sampleEngine =
     \<lparr>codeTransformer_convertCode =
        (\<lambda>c s t. Returns \<lparr>code = None, outputCode = Some c, success = True, error = None, analysis = []\<rparr>),
      codeAnalyzer_analyzeSyntax = (\<lambda>c l. Returns \<lparr>errors = [], warnings = [], suggestions = []\<rparr>),
      codeAnalyzer_fixSyntaxErrors = (\<lambda>c l. Returns \<lparr>fixResult_code = c, fixResult_fixes = []\<rparr>),
      codeAnalyzer_generateQualityMetrics =
        (\<lambda>c l. Returns \<lparr>readability = ''Good'', linesOfCode = 1, functionsCount = 0, classes = 0,
           complexity = 1\<rparr>)\<rparr>"

definition supabaseOff :: supabase_env where
  "supabaseOff = \<lparr>isSupabaseConfigured = False, SUPABASE_TABLE = None, insert_row = (\<lambda>t e. Rejected ''offline'')\<rparr>"

definition supabaseOn :: supabase_env where
  "supabaseOn =
     \<lparr>isSupabaseConfigured = True, SUPABASE_TABLE = None,
      insert_row = (\<lambda>t e. Resolved (Some [HistoryRow (Some ''7'')]) None)\<rparr>"

section \<open>The Transformer's contract\<close>

text \<open>\<^verbatim>\<open>const languages = [...]\<close> of src/client/pages/index.tsx: the six language tags.\<close>

definition languages :: "string list" where
  "languages = [''Python'', ''Java'', ''JavaScript'', ''C#'', ''C++'', ''Go'']"

text \<open>
  Modelled from the spec: \<open>CodeTransformer.convertCode\<close> (\<open>../lib/codeTransformer.js\<close>)
  is not in the sources; only its call in the /convert route is. What follows is section
  3 (the IR node) and section 4.3 (the orchestration) of the specification. The Extractor
  and the Renderer of sections 4.1 and 4.2 are parameters: functions from the source text
  and its language to a tree, and from a tree and the target language to text.
\<close>

datatype IRKind =
  Program | FunctionDecl | ClassDecl | VarDecl | Assignment | IfNode | ForNode | WhileNode
| Print | Return | Comment | Unknown

datatype IRNode =
  IRNode (kind: IRKind) (attributes: "(string \<times> string) list") (children: "IRNode list")
    (sourceLines: "nat \<times> nat")

datatype convert_error = InvalidInput | UnsupportedLanguage

text \<open>The input of a call: text, or a value that is not text.\<close>

datatype source_input = Text string | NonText

fun countKind :: "IRKind \<Rightarrow> IRNode \<Rightarrow> nat" where
  "countKind k (IRNode k' attrs cs ls) =
     (if k = k' then 1 else 0) + sum_list (map (countKind k) cs)"

definition kindName :: "IRKind \<Rightarrow> string" where
  "kindName k =
     (case k of
        Program \<Rightarrow> ''Program'' | FunctionDecl \<Rightarrow> ''FunctionDecl'' | ClassDecl \<Rightarrow> ''ClassDecl''
      | VarDecl \<Rightarrow> ''VarDecl'' | Assignment \<Rightarrow> ''Assignment'' | IfNode \<Rightarrow> ''If''
      | ForNode \<Rightarrow> ''For'' | WhileNode \<Rightarrow> ''While'' | Print \<Rightarrow> ''Print''
      | Return \<Rightarrow> ''Return'' | Comment \<Rightarrow> ''Comment'' | Unknown \<Rightarrow> ''Unknown'')"

text \<open>
  The analysis list: one line per construct kind, with the number of nodes translated, and
  the number left as \<open>Unknown\<close> last. The spec fixes what a line counts, not its wording.
\<close>

definition analysisLines :: "IRNode \<Rightarrow> string list" where
  "analysisLines ir =
     map (\<lambda>k. kindName k @ '': '' @ showNat (countKind k ir))
       [FunctionDecl, ClassDecl, VarDecl, Assignment, IfNode, ForNode, WhileNode, Print,
        Return, Comment, Unknown]"

definition failed :: "convert_error \<Rightarrow> convert_error result_obj" where
  "failed e = \<lparr>code = None, outputCode = None, success = False, error = Some e, analysis = []\<rparr>"

text \<open>
  Section 4.3: validate both languages (\<open>UnsupportedLanguage\<close> otherwise); empty or
  non-text input is \<open>InvalidInput\<close>; then run the Extractor and the Renderer and build the
  analysis list.
\<close>

definition convertCode ::
  "(string \<Rightarrow> string \<Rightarrow> IRNode) \<Rightarrow> (IRNode \<Rightarrow> string \<Rightarrow> string) \<Rightarrow>
   source_input \<Rightarrow> string \<Rightarrow> string \<Rightarrow> convert_error result_obj" where
  "convertCode extractor renderer sourceText sourceLang targetLang =
     (if sourceLang \<notin> set languages \<or> targetLang \<notin> set languages then failed UnsupportedLanguage
      else
        (case sourceText of
           NonText \<Rightarrow> failed InvalidInput
         | Text s \<Rightarrow>
             if s = [] then failed InvalidInput
             else
               (let ir = extractor s sourceLang
                in \<lparr>code = None, outputCode = Some (renderer ir targetLang), success = True,
                     error = None, analysis = analysisLines ir\<rparr>)))"

declare showNat.simps [simp del]

declare removeTaggedFences.simps [simp del]

declare stripLeading.simps [simp del]

section \<open>GeminiService: configuration and failures\<close>














section \<open>History persistence and the responses\<close>

lemma withoutId_simps:
  "withoutId (BadRequest m) = BadRequest m"
  "withoutId (ServerError e) = ServerError e"
  "withoutId (Ok b) = Ok (b\<lparr>body_id := None\<rparr>)"
  by (simp_all add: withoutId_def)

lemma saveHistory_null:
  "\<not> isSupabaseConfigured sb \<or> insertFails (insert_row sb (TABLE sb) entry) \<Longrightarrow> saveHistory sb entry = Null"
  by (auto simp: saveHistory_def insertFails_def split: insert_outcome.splits option.splits)

lemma convert_route_cases:
  obtains (early) r where "\<And>sb. convert_route eng g sb src tgt ic ai = r" and "\<And>b. r \<noteq> Ok b"
  | (saved) b entry where
      "\<And>sb. convert_route eng g sb src tgt ic ai = Ok (b\<lparr>body_id := saved_id (saveHistory sb entry)\<rparr>)"
proof (cases "falsy src \<or> falsy tgt \<or> falsy ic")
  case True
  have "convert_route eng g sb src tgt ic ai = BadRequest ''sourceLang, targetLang, inputCode required''" for sb
    using True by (cases src; cases tgt; cases ic) (simp_all add: convert_route_def)
  then show thesis by (rule early) simp
next
  case valid: False
  then obtain s t c where req: "src = Some s" "tgt = Some t" "ic = Some c"
    by (cases src; cases tgt; cases ic) (simp_all add: falsy_def)
  define conv where "conv = (if ai \<and> isConfigured g then convertCodeWithAI g c s t
                   else codeTransformer_convertCode eng c s t)"
  note unfold = convert_route_def conv_def[symmetric] req
  show thesis
  proof (cases conv)
    case (Throws m)
    with valid have "convert_route eng g sb src tgt ic ai = ServerError (Some m)" for sb
      by (simp add: unfold)
    then show thesis by (rule early) simp
  next
    case result: (Returns result)
    show thesis
    proof (cases "success result")
      case False
      with valid result have "convert_route eng g sb src tgt ic ai = ServerError (error result)" for sb
        by (simp add: unfold)
      then show thesis by (rule early) simp
    next
      case ok: True
      show thesis
      proof (cases "codeAnalyzer_analyzeSyntax eng (outputCode result) t")
        case (Throws m)
        with valid result ok have "convert_route eng g sb src tgt ic ai = ServerError (Some m)" for sb
          by (simp add: unfold)
        then show thesis by (rule early) simp
      next
        case syn: (Returns syntaxAnalysis)
        show thesis
        proof (cases "codeAnalyzer_generateQualityMetrics eng (outputCode result) t")
          case (Throws m)
          with valid result ok syn have "convert_route eng g sb src tgt ic ai = ServerError (Some m)" for sb
            by (simp add: unfold)
          then show thesis by (rule early) simp
        next
          case metrics: (Returns qualityMetrics)
          define combinedAnalysis where "combinedAnalysis =
            analysis result @
            [check_mark @ '' Code quality: '' @ readability qualityMetrics,
             check_mark @ '' Lines of code: '' @ showNat (linesOfCode qualityMetrics),
             check_mark @ '' Functions: '' @ showNat (functionsCount qualityMetrics),
             check_mark @ '' Classes: '' @ showNat (classes qualityMetrics)] @
            map (\<lambda>w. warning_sign @ variation_selector @ '' '' @ w) (warnings syntaxAnalysis) @
            map (\<lambda>s. light_bulb @ '' '' @ s) (suggestions syntaxAnalysis)"
          define entry where "entry =
            \<lparr>entry_sourceLang = s, entry_targetLang = Some t, entry_inputCode = c,
             entry_outputCode = outputCode result, entry_analysisSummary = combinedAnalysis,
             entry_useAI = ai\<rparr>"
          define b where "b =
            \<lparr>body_outputCode = outputCode result, body_analysis = combinedAnalysis,
             body_id = None, body_useAI = ai, body_qualityMetrics = qualityMetrics\<rparr>"
          from valid result ok syn metrics
          have "convert_route eng g sb src tgt ic ai = Ok (b\<lparr>body_id := saved_id (saveHistory sb entry)\<rparr>)" for sb
            by (simp add: unfold Let_def b_def entry_def combinedAnalysis_def)
          then show thesis by (rule saved)
        qed
      qed
    qed
  qed
qed

lemma fix_route_cases:
  obtains (early) r where "\<And>sb. fix_route eng g sb language ic ai = r" and "\<And>b. r \<noteq> Ok b"
  | (saved) b entry where
      "\<And>sb. fix_route eng g sb language ic ai = Ok (b\<lparr>body_id := saved_id (saveHistory sb entry)\<rparr>)"
proof (cases "falsy language \<or> falsy ic")
  case True
  have "fix_route eng g sb language ic ai = BadRequest ''language, inputCode required''" for sb
    using True by (cases language; cases ic) (simp_all add: fix_route_def)
  then show thesis by (rule early) simp
next
  case valid: False
  then obtain l c where req: "language = Some l" "ic = Some c"
    by (cases language; cases ic) (simp_all add: falsy_def)
  define fixed where "fixed = (if ai \<and> isConfigured g then fixCodeWithAI g c l
                   else ruleBasedFix eng c l)"
  note unfold = fix_route_def fixed_def[symmetric] req
  show thesis
  proof (cases fixed)
    case (Throws m)
    with valid have "fix_route eng g sb language ic ai = ServerError (Some m)" for sb
      by (simp add: unfold)
    then show thesis by (rule early) simp
  next
    case result: (Returns result)
    show thesis
    proof (cases "success result")
      case False
      with valid result have "fix_route eng g sb language ic ai = ServerError (error result)" for sb
        by (simp add: unfold)
      then show thesis by (rule early) simp
    next
      case ok: True
      show thesis
      proof (cases "codeAnalyzer_generateQualityMetrics eng (code result) l")
        case (Throws m)
        with valid result ok have "fix_route eng g sb language ic ai = ServerError (Some m)" for sb
          by (simp add: unfold)
        then show thesis by (rule early) simp
      next
        case metrics: (Returns qualityMetrics)
        define combinedAnalysis where "combinedAnalysis =
          analysis result @
          [check_mark @ '' Code quality: '' @ readability qualityMetrics,
           check_mark @ '' Lines of code: '' @ showNat (linesOfCode qualityMetrics),
           check_mark @ '' Functions: '' @ showNat (functionsCount qualityMetrics),
           check_mark @ '' Classes: '' @ showNat (classes qualityMetrics)]"
        define entry where "entry =
          \<lparr>entry_sourceLang = l, entry_targetLang = None, entry_inputCode = c,
           entry_outputCode = code result, entry_analysisSummary = combinedAnalysis,
           entry_useAI = ai\<rparr>"
        define b where "b =
          \<lparr>body_outputCode = code result, body_analysis = combinedAnalysis,
           body_id = None, body_useAI = ai, body_qualityMetrics = qualityMetrics\<rparr>"
        from valid result ok metrics
        have "fix_route eng g sb language ic ai = Ok (b\<lparr>body_id := saved_id (saveHistory sb entry)\<rparr>)" for sb
          by (simp add: unfold Let_def b_def entry_def combinedAnalysis_def)
        then show thesis by (rule saved)
      qed
    qed
  qed
qed

lemma failed_save_route:
  assumes fails: "\<not> isSupabaseConfigured sb \<or> (\<forall>t e. insertFails (insert_row sb t e))"
    and shape: "(\<exists>r. (\<forall>sb. route sb = r) \<and> (\<forall>b. r \<noteq> Ok b)) \<or>
                (\<exists>b entry. \<forall>sb. route sb = Ok (b\<lparr>body_id := saved_id (saveHistory sb entry)\<rparr>))"
  shows "route sb = withoutId (route sb')"
proof -
  have null: "saveHistory sb entry = Null" for entry
    using fails by (intro saveHistory_null) auto
  from shape show ?thesis
  proof (elim disjE exE conjE)
    fix r assume "\<forall>sb. route sb = r" "\<forall>b. r \<noteq> Ok b"
    then show ?thesis by (cases r) (auto simp: withoutId_simps)
  next
    fix b entry assume "\<forall>sb. route sb = Ok (b\<lparr>body_id := saved_id (saveHistory sb entry)\<rparr>)"
    then show ?thesis by (simp add: withoutId_simps null saved_id_def)
  qed
qed

lemma withoutId_fields:
  assumes "withoutId r = withoutId r'" and "r = Ok b" and "r' = Ok b'"
  shows "body_outputCode b = body_outputCode b' \<and> body_analysis b = body_analysis b'
         \<and> body_useAI b = body_useAI b' \<and> body_qualityMetrics b = body_qualityMetrics b'"
proof -
  from assms have eq: "b\<lparr>body_id := None\<rparr> = b'\<lparr>body_id := None\<rparr>"
    by (simp add: withoutId_simps)
  have "body_outputCode (b\<lparr>body_id := None\<rparr>) = body_outputCode (b'\<lparr>body_id := None\<rparr>)"
    "body_analysis (b\<lparr>body_id := None\<rparr>) = body_analysis (b'\<lparr>body_id := None\<rparr>)"
    "body_useAI (b\<lparr>body_id := None\<rparr>) = body_useAI (b'\<lparr>body_id := None\<rparr>)"
    "body_qualityMetrics (b\<lparr>body_id := None\<rparr>) = body_qualityMetrics (b'\<lparr>body_id := None\<rparr>)"
    by (simp_all only: eq)
  then show ?thesis by simp
qed

lemma withoutId_no_id: "r = withoutId r' \<Longrightarrow> r = Ok b \<Longrightarrow> body_id b = None"
  by (cases r') (auto simp: withoutId_simps)

lemma convert_route_independent:
  "withoutId (convert_route eng g sb sourceLang targetLang inputCode useAI) =
   withoutId (convert_route eng g sb' sourceLang targetLang inputCode useAI)"
  by (cases rule: convert_route_cases[of eng g sourceLang targetLang inputCode useAI])
    (simp_all add: withoutId_simps)

lemma fix_route_independent:
  "withoutId (fix_route eng g sb language inputCode useAI) =
   withoutId (fix_route eng g sb' language inputCode useAI)"
  by (cases rule: fix_route_cases[of eng g language inputCode useAI])
    (simp_all add: withoutId_simps)

lemma convert_route_unsaved:
  assumes "\<not> isSupabaseConfigured sb \<or> (\<forall>t e. insertFails (insert_row sb t e))"
  shows "convert_route eng g sb sourceLang targetLang inputCode useAI =
         withoutId (convert_route eng g sb' sourceLang targetLang inputCode useAI)"
  by (rule failed_save_route[OF assms],
      cases rule: convert_route_cases[of eng g sourceLang targetLang inputCode useAI]) blast+

lemma fix_route_unsaved:
  assumes "\<not> isSupabaseConfigured sb \<or> (\<forall>t e. insertFails (insert_row sb t e))"
  shows "fix_route eng g sb language inputCode useAI =
         withoutId (fix_route eng g sb' language inputCode useAI)"
  by (rule failed_save_route[OF assms],
      cases rule: fix_route_cases[of eng g language inputCode useAI]) blast+

text \<open>
  Claim C10. \<open>saveHistory\<close> returns \<open>null\<close> when Supabase is not configured or the insert
  fails. For every request to /convert and to /fix, under any two behaviours \<open>sb\<close> and
  \<open>sb'\<close> of Supabase the two responses are the same up to \<open>id\<close>: the same status and
  error, and in a 200 response the same \<open>outputCode\<close>, \<open>analysis\<close>, \<open>useAI\<close> and
  \<open>qualityMetrics\<close>. When persistence fails under \<open>sb\<close>, the response is the one under
  \<open>sb'\<close> with \<open>id\<close> undefined.
\<close>

theorem persistence_never_changes_response:
  "(\<not> isSupabaseConfigured sb \<or> insertFails (insert_row sb (TABLE sb) entry) \<longrightarrow> saveHistory sb entry = Null)
   \<and> withoutId (convert_route eng g sb sourceLang targetLang inputCode useAI) =
       withoutId (convert_route eng g sb' sourceLang targetLang inputCode useAI)
   \<and> withoutId (fix_route eng g sb language inputCode useAI) =
       withoutId (fix_route eng g sb' language inputCode useAI)
   \<and> (convert_route eng g sb sourceLang targetLang inputCode useAI = Ok b
        \<and> convert_route eng g sb' sourceLang targetLang inputCode useAI = Ok b' \<longrightarrow>
        body_outputCode b = body_outputCode b' \<and> body_analysis b = body_analysis b'
        \<and> body_useAI b = body_useAI b' \<and> body_qualityMetrics b = body_qualityMetrics b')
   \<and> (fix_route eng g sb language inputCode useAI = Ok b
        \<and> fix_route eng g sb' language inputCode useAI = Ok b' \<longrightarrow>
        body_outputCode b = body_outputCode b' \<and> body_analysis b = body_analysis b'
        \<and> body_useAI b = body_useAI b' \<and> body_qualityMetrics b = body_qualityMetrics b')
   \<and> (\<not> isSupabaseConfigured sb \<or> (\<forall>t e. insertFails (insert_row sb t e)) \<longrightarrow>
        convert_route eng g sb sourceLang targetLang inputCode useAI =
          withoutId (convert_route eng g sb' sourceLang targetLang inputCode useAI)
        \<and> fix_route eng g sb language inputCode useAI =
          withoutId (fix_route eng g sb' language inputCode useAI)
        \<and> (convert_route eng g sb sourceLang targetLang inputCode useAI = Ok b \<longrightarrow> body_id b = None)
        \<and> (fix_route eng g sb language inputCode useAI = Ok b \<longrightarrow> body_id b = None))"
proof (intro conjI impI; (elim conjE)?)
  assume "\<not> isSupabaseConfigured sb \<or> insertFails (insert_row sb (TABLE sb) entry)"
  then show "saveHistory sb entry = Null" by (rule saveHistory_null)
next
  show "withoutId (convert_route eng g sb sourceLang targetLang inputCode useAI) =
        withoutId (convert_route eng g sb' sourceLang targetLang inputCode useAI)"
    by (rule convert_route_independent)
next
  show "withoutId (fix_route eng g sb language inputCode useAI) =
        withoutId (fix_route eng g sb' language inputCode useAI)"
    by (rule fix_route_independent)
next
  assume "convert_route eng g sb sourceLang targetLang inputCode useAI = Ok b"
    and "convert_route eng g sb' sourceLang targetLang inputCode useAI = Ok b'"
  with convert_route_independent[of eng g sb sourceLang targetLang inputCode useAI sb']
  have fields: "body_outputCode b = body_outputCode b' \<and> body_analysis b = body_analysis b'
         \<and> body_useAI b = body_useAI b' \<and> body_qualityMetrics b = body_qualityMetrics b'"
    by (rule withoutId_fields)
  from fields show "body_outputCode b = body_outputCode b'" by simp
  from fields show "body_analysis b = body_analysis b'" by simp
  from fields show "body_useAI b = body_useAI b'" by simp
  from fields show "body_qualityMetrics b = body_qualityMetrics b'" by simp
next
  assume "fix_route eng g sb language inputCode useAI = Ok b"
    and "fix_route eng g sb' language inputCode useAI = Ok b'"
  with fix_route_independent[of eng g sb language inputCode useAI sb']
  have fields: "body_outputCode b = body_outputCode b' \<and> body_analysis b = body_analysis b'
         \<and> body_useAI b = body_useAI b' \<and> body_qualityMetrics b = body_qualityMetrics b'"
    by (rule withoutId_fields)
  from fields show "body_outputCode b = body_outputCode b'" by simp
  from fields show "body_analysis b = body_analysis b'" by simp
  from fields show "body_useAI b = body_useAI b'" by simp
  from fields show "body_qualityMetrics b = body_qualityMetrics b'" by simp
next
  assume fails: "\<not> isSupabaseConfigured sb \<or> (\<forall>t e. insertFails (insert_row sb t e))"
  show "convert_route eng g sb sourceLang targetLang inputCode useAI =
        withoutId (convert_route eng g sb' sourceLang targetLang inputCode useAI)"
    using fails by (rule convert_route_unsaved)
  show "fix_route eng g sb language inputCode useAI =
        withoutId (fix_route eng g sb' language inputCode useAI)"
    using fails by (rule fix_route_unsaved)
next
  assume fails: "\<not> isSupabaseConfigured sb \<or> (\<forall>t e. insertFails (insert_row sb t e))"
    and ok: "convert_route eng g sb sourceLang targetLang inputCode useAI = Ok b"
  from convert_route_unsaved[OF fails] ok show "body_id b = None"
    by (rule withoutId_no_id)
next
  assume fails: "\<not> isSupabaseConfigured sb \<or> (\<forall>t e. insertFails (insert_row sb t e))"
    and ok: "fix_route eng g sb language inputCode useAI = Ok b"
  from fix_route_unsaved[OF fails] ok show "body_id b = None"
    by (rule withoutId_no_id)
qed

theorem persistence_never_changes_response_witness:
  "\<not> isSupabaseConfigured supabaseOff
   \<and> fix_route sampleEngine \<lparr>genAI = None, model = None\<rparr> supabaseOff (Some ''Python'') (Some ''x = 1'') False
     = Ok \<lparr>body_outputCode = Some ''x = 1'',
           body_analysis =
             [check_mark @ '' Syntax analysis completed'', check_mark @ '' Found 0 errors'',
              check_mark @ '' Found 0 warnings'', check_mark @ '' Code quality: Good'',
              check_mark @ '' Lines of code: 1'', check_mark @ '' Functions: 0'',
              check_mark @ '' Classes: 0''],
           body_id = None, body_useAI = False,
           body_qualityMetrics = \<lparr>readability = ''Good'', linesOfCode = 1, functionsCount = 0,
             classes = 0, complexity = 1\<rparr>\<rparr>
   \<and> fix_route sampleEngine \<lparr>genAI = None, model = None\<rparr> supabaseOn (Some ''Python'') (Some ''x = 1'') False
     = Ok \<lparr>body_outputCode = Some ''x = 1'',
           body_analysis =
             [check_mark @ '' Syntax analysis completed'', check_mark @ '' Found 0 errors'',
              check_mark @ '' Found 0 warnings'', check_mark @ '' Code quality: Good'',
              check_mark @ '' Lines of code: 1'', check_mark @ '' Functions: 0'',
              check_mark @ '' Classes: 0''],
           body_id = Some ''7'', body_useAI = False,
           body_qualityMetrics = \<lparr>readability = ''Good'', linesOfCode = 1, functionsCount = 0,
             classes = 0, complexity = 1\<rparr>\<rparr>
   \<and> fix_route sampleEngine \<lparr>genAI = None, model = None\<rparr> supabaseOff (Some ''Python'') (Some ''x = 1'') False
     = withoutId (fix_route sampleEngine \<lparr>genAI = None, model = None\<rparr> supabaseOn
         (Some ''Python'') (Some ''x = 1'') False)"
proof -
  have off: "\<not> isSupabaseConfigured supabaseOff"
    by (simp add: supabaseOff_def)
  have zero: "showNat 0 = ''0''"
    by code_simp
  have one: "showNat (Suc 0) = ''1''"
    by code_simp
  have unsaved: "fix_route sampleEngine \<lparr>genAI = None, model = None\<rparr> supabaseOff
      (Some ''Python'') (Some ''x = 1'') False
     = Ok \<lparr>body_outputCode = Some ''x = 1'',
           body_analysis =
             [check_mark @ '' Syntax analysis completed'', check_mark @ '' Found 0 errors'',
              check_mark @ '' Found 0 warnings'', check_mark @ '' Code quality: Good'',
              check_mark @ '' Lines of code: 1'', check_mark @ '' Functions: 0'',
              check_mark @ '' Classes: 0''],
           body_id = None, body_useAI = False,
           body_qualityMetrics = \<lparr>readability = ''Good'', linesOfCode = 1, functionsCount = 0,
             classes = 0, complexity = 1\<rparr>\<rparr>"
    by (simp add: fix_route_def ruleBasedFix_def falsy_def isConfigured_def sampleEngine_def
        supabaseOff_def saveHistory_def saved_id_def Let_def zero one)
  have stored: "fix_route sampleEngine \<lparr>genAI = None, model = None\<rparr> supabaseOn
      (Some ''Python'') (Some ''x = 1'') False
     = Ok \<lparr>body_outputCode = Some ''x = 1'',
           body_analysis =
             [check_mark @ '' Syntax analysis completed'', check_mark @ '' Found 0 errors'',
              check_mark @ '' Found 0 warnings'', check_mark @ '' Code quality: Good'',
              check_mark @ '' Lines of code: 1'', check_mark @ '' Functions: 0'',
              check_mark @ '' Classes: 0''],
           body_id = Some ''7'', body_useAI = False,
           body_qualityMetrics = \<lparr>readability = ''Good'', linesOfCode = 1, functionsCount = 0,
             classes = 0, complexity = 1\<rparr>\<rparr>"
    by (simp add: fix_route_def ruleBasedFix_def falsy_def isConfigured_def sampleEngine_def
        supabaseOn_def saveHistory_def saved_id_def TABLE_def Let_def zero one)
  from off unsaved stored
    persistence_never_changes_response
      [where sb = supabaseOff and sb' = supabaseOn and eng = sampleEngine
         and g = "\<lparr>genAI = None, model = None\<rparr>" and language = "Some ''Python''"
         and inputCode = "Some ''x = 1''" and useAI = False]
  show ?thesis by simp
qed

section \<open>When a conversion fails\<close>

text \<open>
  Claim C1. Whatever the Extractor and the Renderer are, \<open>convertCode\<close> has
  \<open>success = false\<close> exactly when the input is empty or not text (\<open>InvalidInput\<close>) or one
  of the two languages is outside the six supported tags (\<open>UnsupportedLanguage\<close>); a
  non-empty text between supported languages is converted with \<open>success = true\<close>; and
  \<open>convertCode("", "Python", "Go")\<close> fails with \<open>InvalidInput\<close>.
\<close>

theorem convertCode_fails_iff_invalid:
  "(\<not> success (convertCode extractor renderer sourceText sourceLang targetLang) \<longleftrightarrow>
      sourceText = Text [] \<or> sourceText = NonText
      \<or> sourceLang \<notin> set languages \<or> targetLang \<notin> set languages)
   \<and> (error (convertCode extractor renderer sourceText sourceLang targetLang) = Some UnsupportedLanguage \<longleftrightarrow>
      sourceLang \<notin> set languages \<or> targetLang \<notin> set languages)
   \<and> (error (convertCode extractor renderer sourceText sourceLang targetLang) = Some InvalidInput \<longleftrightarrow>
      sourceLang \<in> set languages \<and> targetLang \<in> set languages
      \<and> (sourceText = Text [] \<or> sourceText = NonText))
   \<and> (sourceLang \<in> set languages \<and> targetLang \<in> set languages \<and> sourceText = Text s \<and> s \<noteq> [] \<longrightarrow>
      convertCode extractor renderer sourceText sourceLang targetLang =
        \<lparr>code = None, outputCode = Some (renderer (extractor s sourceLang) targetLang), success = True,
         error = None, analysis = analysisLines (extractor s sourceLang)\<rparr>)
   \<and> convertCode extractor renderer (Text []) ''Python'' ''Go'' = failed InvalidInput
   \<and> \<not> success (failed InvalidInput) \<and> error (failed InvalidInput) = Some InvalidInput"
proof -
  let ?result = "convertCode extractor renderer sourceText sourceLang targetLang"
  have python_go: "''Python'' \<in> set languages" "''Go'' \<in> set languages"
    by (simp_all add: languages_def)
  have scenario: "convertCode extractor renderer (Text []) ''Python'' ''Go'' = failed InvalidInput"
    using python_go by (simp add: convertCode_def)
  have failure: "\<not> success (failed e) \<and> error (failed e) = Some e" for e
    by (simp add: failed_def)
  consider
    (unsupported) "sourceLang \<notin> set languages \<or> targetLang \<notin> set languages"
    | (invalid) "sourceLang \<in> set languages" "targetLang \<in> set languages"
        "sourceText = Text [] \<or> sourceText = NonText"
    | (converted) t where "sourceLang \<in> set languages" "targetLang \<in> set languages"
        "sourceText = Text t" "t \<noteq> []"
    by (cases sourceText) auto
  then show ?thesis
  proof cases
    case unsupported
    then have "?result = failed UnsupportedLanguage"
      by (simp add: convertCode_def)
    with unsupported scenario failure show ?thesis by auto
  next
    case invalid
    then have "?result = failed InvalidInput"
      by (auto simp: convertCode_def)
    with invalid scenario failure show ?thesis by auto
  next
    case converted
    then have "?result =
        \<lparr>code = None, outputCode = Some (renderer (extractor t sourceLang) targetLang), success = True,
         error = None, analysis = analysisLines (extractor t sourceLang)\<rparr>"
      by (simp add: convertCode_def Let_def)
    with converted scenario failure show ?thesis by auto
  qed
qed

theorem convertCode_fails_iff_invalid_witness:
  "''Python'' \<in> set languages \<and> ''JavaScript'' \<in> set languages
   \<and> convertCode (\<lambda>s l. IRNode Program [] [IRNode Unknown [(''raw'', s)] [] (1, 1)] (1, 1))
        (\<lambda>ir t. ''x = 1'') (Text ''x = 1'') ''Python'' ''JavaScript''
     = \<lparr>code = None, outputCode = Some ''x = 1'', success = True, error = None,
        analysis = analysisLines (IRNode Program [] [IRNode Unknown [(''raw'', ''x = 1'')] [] (1, 1)] (1, 1))\<rparr>
   \<and> ''Ruby'' \<notin> set languages
   \<and> \<not> success (convertCode (\<lambda>s l. IRNode Program [] [IRNode Unknown [(''raw'', s)] [] (1, 1)] (1, 1))
        (\<lambda>ir t. ''x = 1'') (Text ''x = 1'') ''Ruby'' ''JavaScript'')"
proof -
  note supported = convertCode_fails_iff_invalid
    [where extractor = "\<lambda>s l. IRNode Program [] [IRNode Unknown [(''raw'', s)] [] (1, 1)] (1, 1)"
       and renderer = "\<lambda>ir t. ''x = 1''" and sourceText = "Text ''x = 1''" and s = "''x = 1''"
       and sourceLang = "''Python''" and targetLang = "''JavaScript''"]
  note unsupported = convertCode_fails_iff_invalid
    [where extractor = "\<lambda>s l. IRNode Program [] [IRNode Unknown [(''raw'', s)] [] (1, 1)] (1, 1)"
       and renderer = "\<lambda>ir t. ''x = 1''" and sourceText = "Text ''x = 1''"
       and sourceLang = "''Ruby''" and targetLang = "''JavaScript''"]
  show ?thesis
    using supported unsupported by (simp add: languages_def)
qed

end
